theory Spec2Isabelle
  imports Complex_Main
begin

section \<open>The paper trading bot (\<^verbatim>\<open>src/paper_trading_bot.py\<close>)\<close>

text \<open>
  A shallow embedding of the class \<^verbatim>\<open>PaperTradingBot\<close>. The object's attributes are a
  record that every method takes and returns; the price lookup over the network is a
  parameter (the environment of a call); the text a method prints is returned with its
  result.

  Numbers: the source computes with Python floats. They are modelled as exact rationals,
  so rounding, infinities and NaN are outside the model. Every concrete input used below
  is a small integer, on which float arithmetic is exact, and every general statement is
  about single comparisons and single arithmetic steps of the source: none rests on an
  identity that fails under rounding.

  Strings: \<^verbatim>\<open>str.upper\<close> is modelled on ASCII letters; other characters are left as they
  are.
\<close>

subsection \<open>Strings and dictionaries\<close>

definition ascii_lowercase :: string where
  "ascii_lowercase = ''abcdefghijklmnopqrstuvwxyz''"

definition ascii_uppercase :: string where
  "ascii_uppercase = ''ABCDEFGHIJKLMNOPQRSTUVWXYZ''"

definition upper_char :: "char \<Rightarrow> char" where
  "upper_char c =
     (case map_of (zip ascii_lowercase ascii_uppercase) c of
        Some C \<Rightarrow> C
      | None \<Rightarrow> c)"

definition upper :: "string \<Rightarrow> string" where
  "upper s = map upper_char s"

text \<open>\<^verbatim>\<open>d.get(k, default)\<close>\<close>

definition dict_get :: "('k \<rightharpoonup> 'v) \<Rightarrow> 'k \<Rightarrow> 'v \<Rightarrow> 'v" where
  "dict_get d k dflt = (case d k of None \<Rightarrow> dflt | Some v \<Rightarrow> v)"

subsection \<open>Data\<close>

datatype order_type = MARKET | LIMIT

datatype order_status = FILLED | REJECTED | NEW

text \<open>
  The order dictionary. The keys \<^verbatim>\<open>total_cost\<close> (market orders only),
  \<^verbatim>\<open>current_market_price\<close> (limit orders only) and \<^verbatim>\<open>filled_price\<close> (set when a limit
  order is eligible) are optional; the key \<^verbatim>\<open>type\<close> is the field \<open>otype\<close>.
\<close>

record order =
  orderId :: int
  symbol :: string
  side :: string
  otype :: order_type
  quantity :: rat
  price :: rat
  total_cost :: "rat option"
  current_market_price :: "rat option"
  status :: order_status
  filled_price :: "rat option"
  timestamp :: string

text \<open>The attributes set by \<^verbatim>\<open>__init__\<close>.\<close>

record bot =
  balance :: rat
  positions :: "string \<rightharpoonup> rat"
  orders :: "order list"
  order_id_counter :: int

definition init_bot :: bot where
  "init_bot = \<lparr>balance = 10000, positions = Map.empty, orders = [], order_id_counter = 1\<rparr>"

text \<open>
  What a call reads from outside the object: the answer of the public ticker endpoint for
  an (upper-cased) symbol, \<open>None\<close> when the request or the parsing of its answer raises,
  and the clock.
\<close>

record env =
  ticker :: "string \<Rightarrow> rat option"
  now :: string

text \<open>The blocks of text the methods print, one constructor per block.\<close>

datatype notice =
    PRICE_ERROR
  | BUY_ORDER_EXECUTED
  | INSUFFICIENT_BALANCE
  | SELL_ORDER_EXECUTED
  | INSUFFICIENT_POSITION
  | LIMIT_ORDER_PLACED order_status

record outcome =
  returned :: order
  printed :: "notice list"
  after :: bot

subsection \<open>Operations\<close>

definition mock_prices :: "string \<rightharpoonup> rat" where
  "mock_prices = [''BTCUSDT'' \<mapsto> 43000, ''ETHUSDT'' \<mapsto> 2500, ''BNBUSDT'' \<mapsto> 300]"

definition get_current_price :: "env \<Rightarrow> string \<Rightarrow> rat \<times> notice list" where
  "get_current_price e symb =
     (case ticker e (upper symb) of
        Some p \<Rightarrow> (p, [])
      | None \<Rightarrow> (dict_get mock_prices (upper symb) 1000, [PRICE_ERROR]))"

definition place_market_order :: "env \<Rightarrow> bot \<Rightarrow> string \<Rightarrow> string \<Rightarrow> rat \<Rightarrow> outcome" where
  "place_market_order e s symb sd qty =
     (let (current_price, out) = get_current_price e symb;
          cost = qty * current_price;
          order = \<lparr>orderId = order_id_counter s, symbol = upper symb, side = upper sd,
                   otype = MARKET, quantity = qty, price = current_price,
                   total_cost = Some cost, current_market_price = None,
                   status = FILLED, filled_price = None, timestamp = now e\<rparr>;
          (order, msg, s) =
            (if upper sd = ''BUY'' then
               (if balance s \<ge> cost then
                  (order, BUY_ORDER_EXECUTED,
                   s\<lparr>balance := balance s - cost,
                     positions := (positions s)(symb \<mapsto> dict_get (positions s) symb 0 + qty)\<rparr>)
                else
                  (order\<lparr>status := REJECTED\<rparr>, INSUFFICIENT_BALANCE, s))
             else
               (let current_position = dict_get (positions s) symb 0
                in if current_position \<ge> qty then
                     (order, SELL_ORDER_EXECUTED,
                      s\<lparr>balance := balance s + cost,
                        positions := (positions s)(symb \<mapsto> current_position - qty)\<rparr>)
                   else
                     (order\<lparr>status := REJECTED\<rparr>, INSUFFICIENT_POSITION, s)))
      in \<lparr>returned = order, printed = out @ [msg],
          after = s\<lparr>orders := orders s @ [order],
                    order_id_counter := order_id_counter s + 1\<rparr>\<rparr>)"

definition place_limit_order ::
  "env \<Rightarrow> bot \<Rightarrow> string \<Rightarrow> string \<Rightarrow> rat \<Rightarrow> rat \<Rightarrow> outcome" where
  "place_limit_order e s symb sd qty lp =
     (let (current_price, out) = get_current_price e symb;
          order = \<lparr>orderId = order_id_counter s, symbol = upper symb, side = upper sd,
                   otype = LIMIT, quantity = qty, price = lp,
                   total_cost = None, current_market_price = Some current_price,
                   status = NEW, filled_price = None, timestamp = now e\<rparr>;
          (order, s) =
            (if (upper sd = ''BUY'' \<and> lp \<ge> current_price) \<or>
                (upper sd = ''SELL'' \<and> lp \<le> current_price) then
               (let order = order\<lparr>status := FILLED, filled_price := Some current_price\<rparr>;
                    cost = qty * current_price
                in if upper sd = ''BUY'' \<and> balance s \<ge> cost then
                     (order,
                      s\<lparr>balance := balance s - cost,
                        positions := (positions s)(symb \<mapsto> dict_get (positions s) symb 0 + qty)\<rparr>)
                   else if upper sd = ''SELL'' \<and> dict_get (positions s) symb 0 \<ge> qty then
                     (order,
                      s\<lparr>balance := balance s + cost,
                        positions := (positions s)(symb \<mapsto> dict_get (positions s) symb 0 - qty)\<rparr>)
                   else
                     (order\<lparr>status := REJECTED\<rparr>, s))
             else (order, s))
      in \<lparr>returned = order, printed = out @ [LIMIT_ORDER_PLACED (status order)],
          after = s\<lparr>orders := orders s @ [order],
                    order_id_counter := order_id_counter s + 1\<rparr>\<rparr>)"

subsection \<open>Sessions\<close>

text \<open>
  The menu loop of \<^verbatim>\<open>main\<close> submits one order per round (choices 1 and 2) to the same
  bot. A session is the list of these submissions, each with the environment it ran in.
\<close>

datatype request =
    Market string string rat
  | Limit string string rat rat

fun submit :: "env \<Rightarrow> bot \<Rightarrow> request \<Rightarrow> outcome" where
  "submit e s (Market symb sd qty) = place_market_order e s symb sd qty"
| "submit e s (Limit symb sd qty lp) = place_limit_order e s symb sd qty lp"

fun run :: "bot \<Rightarrow> (env \<times> request) list \<Rightarrow> bot" where
  "run s [] = s"
| "run s ((e, r) # rs) = run (after (submit e s r)) rs"

text \<open>The orders returned by the submissions of a session, in order.\<close>

fun results :: "bot \<Rightarrow> (env \<times> request) list \<Rightarrow> order list" where
  "results s [] = []"
| "results s ((e, r) # rs) = returned (submit e s r) # results (after (submit e s r)) rs"

section \<open>Properties\<close>

subsection \<open>Shorthands and concrete environments\<close>

text \<open>The price a call works with, and the quantity it reads from the positions.\<close>

abbreviation quote :: "env \<Rightarrow> string \<Rightarrow> rat" where
  "quote e symb \<equiv> fst (get_current_price e symb)"

abbreviation held :: "bot \<Rightarrow> string \<Rightarrow> rat" where
  "held s symb \<equiv> dict_get (positions s) symb 0"

fun req_quantity :: "request \<Rightarrow> rat" where
  "req_quantity (Market symb sd qty) = qty"
| "req_quantity (Limit symb sd qty lp) = qty"

fun req_symbol :: "request \<Rightarrow> string" where
  "req_symbol (Market symb sd qty) = symb"
| "req_symbol (Limit symb sd qty lp) = symb"

text \<open>The ticker answers 100 (respectively 50) for every symbol.\<close>

definition live_100 :: env where
  "live_100 = \<lparr>ticker = (\<lambda>_. Some 100), now = ''2024-01-01T00:00:00''\<rparr>"

definition live_50 :: env where
  "live_50 = \<lparr>ticker = (\<lambda>_. Some 50), now = ''2024-01-01T00:00:00''\<rparr>"


text \<open>A bot holding 5 units of BTCUSDT besides the initial cash.\<close>

definition bot_holding :: bot where
  "bot_holding = init_bot\<lparr>positions := [''BTCUSDT'' \<mapsto> 5]\<rparr>"


text \<open>The price condition under which \<^verbatim>\<open>place_limit_order\<close> tries to fill.\<close>

definition eligible :: "env \<Rightarrow> string \<Rightarrow> string \<Rightarrow> rat \<Rightarrow> bool" where
  "eligible e symb sd lp \<longleftrightarrow>
     (upper sd = ''BUY'' \<and> quote e symb \<le> lp) \<or> (upper sd = ''SELL'' \<and> lp \<le> quote e symb)"

lemmas eval_defs =
  place_market_order_def place_limit_order_def get_current_price_def dict_get_def
  mock_prices_def init_bot_def live_100_def live_50_def
  upper_def upper_char_def ascii_lowercase_def ascii_uppercase_def Let_def

subsection \<open>What one call does to each attribute\<close>

lemma market_balance:
  "balance (after (place_market_order e s symb sd qty)) =
     (if upper sd = ''BUY'' then
        (if qty * quote e symb \<le> balance s then balance s - qty * quote e symb else balance s)
      else
        (if qty \<le> held s symb then balance s + qty * quote e symb else balance s))"
  by (simp add: place_market_order_def Let_def split: prod.splits)

lemma market_positions:
  "positions (after (place_market_order e s symb sd qty)) =
     (if upper sd = ''BUY'' then
        (if qty * quote e symb \<le> balance s then (positions s)(symb \<mapsto> held s symb + qty)
         else positions s)
      else
        (if qty \<le> held s symb then (positions s)(symb \<mapsto> held s symb - qty)
         else positions s))"
  by (simp add: place_market_order_def Let_def split: prod.splits)

lemma market_status:
  "status (returned (place_market_order e s symb sd qty)) =
     (if upper sd = ''BUY'' then
        (if qty * quote e symb \<le> balance s then FILLED else REJECTED)
      else
        (if qty \<le> held s symb then FILLED else REJECTED))"
  by (simp add: place_market_order_def Let_def split: prod.splits)

lemma market_printed:
  "last (printed (place_market_order e s symb sd qty)) =
     (if upper sd = ''BUY'' then
        (if qty * quote e symb \<le> balance s then BUY_ORDER_EXECUTED else INSUFFICIENT_BALANCE)
      else
        (if qty \<le> held s symb then SELL_ORDER_EXECUTED else INSUFFICIENT_POSITION))"
  by (simp add: place_market_order_def Let_def split: prod.splits)


lemma market_log:
  "orders (after (place_market_order e s symb sd qty)) =
     orders s @ [returned (place_market_order e s symb sd qty)]"
  "order_id_counter (after (place_market_order e s symb sd qty)) = order_id_counter s + 1"
  "orderId (returned (place_market_order e s symb sd qty)) = order_id_counter s"
  by (simp_all add: place_market_order_def Let_def split: prod.splits)

lemma limit_balance:
  "balance (after (place_limit_order e s symb sd qty lp)) =
     (if eligible e symb sd lp then
        (if upper sd = ''BUY'' \<and> qty * quote e symb \<le> balance s then
           balance s - qty * quote e symb
         else if upper sd = ''SELL'' \<and> qty \<le> held s symb then
           balance s + qty * quote e symb
         else balance s)
      else balance s)"
  by (simp add: place_limit_order_def eligible_def Let_def split: prod.splits)

lemma limit_positions:
  "positions (after (place_limit_order e s symb sd qty lp)) =
     (if eligible e symb sd lp then
        (if upper sd = ''BUY'' \<and> qty * quote e symb \<le> balance s then
           (positions s)(symb \<mapsto> held s symb + qty)
         else if upper sd = ''SELL'' \<and> qty \<le> held s symb then
           (positions s)(symb \<mapsto> held s symb - qty)
         else positions s)
      else positions s)"
  by (simp add: place_limit_order_def eligible_def Let_def split: prod.splits)

lemma limit_status:
  "status (returned (place_limit_order e s symb sd qty lp)) =
     (if eligible e symb sd lp then
        (if upper sd = ''BUY'' \<and> qty * quote e symb \<le> balance s then FILLED
         else if upper sd = ''SELL'' \<and> qty \<le> held s symb then FILLED
         else REJECTED)
      else NEW)"
  by (simp add: place_limit_order_def eligible_def Let_def split: prod.splits)

lemma limit_filled_price:
  "filled_price (returned (place_limit_order e s symb sd qty lp)) =
     (if eligible e symb sd lp then Some (quote e symb) else None)"
  by (simp add: place_limit_order_def eligible_def Let_def split: prod.splits)

lemma limit_printed:
  "printed (place_limit_order e s symb sd qty lp) =
     snd (get_current_price e symb) @
     [LIMIT_ORDER_PLACED (status (returned (place_limit_order e s symb sd qty lp)))]"
  by (simp add: place_limit_order_def Let_def split: prod.splits)

lemma limit_log:
  "orders (after (place_limit_order e s symb sd qty lp)) =
     orders s @ [returned (place_limit_order e s symb sd qty lp)]"
  "order_id_counter (after (place_limit_order e s symb sd qty lp)) = order_id_counter s + 1"
  "orderId (returned (place_limit_order e s symb sd qty lp)) = order_id_counter s"
  by (simp_all add: place_limit_order_def Let_def split: prod.splits)

lemma upper_BUY: "upper ''BUY'' = ''BUY''"
  by (simp add: upper_def upper_char_def ascii_lowercase_def ascii_uppercase_def)

lemma upper_SELL: "upper ''SELL'' = ''SELL''"
  by (simp add: upper_def upper_char_def ascii_lowercase_def ascii_uppercase_def)

lemma quote_live_100: "quote live_100 symb = 100"
  by (simp add: get_current_price_def live_100_def)

lemma quote_live_50: "quote live_50 symb = 50"
  by (simp add: get_current_price_def live_50_def)

subsection \<open>Limit orders whose price condition is not met\<close>

text \<open>
  Claim C1, as the spec states it, fails: with the market at 100, a BUY limit at 90 is
  returned with the status \<open>NEW\<close> that the order was created with, not \<open>REJECTED\<close>.
\<close>

theorem limit_not_marketable_counterexample:
  "90 < quote live_100 ''BTCUSDT'' \<and>
   status (returned (place_limit_order live_100 init_bot ''BTCUSDT'' ''BUY'' 1 90)) \<noteq> REJECTED"
  by (simp add: eval_defs)

text \<open>
  Claim C1, amended: for every limit order whose price condition is not met (BUY with
  limit price below the current market price, or SELL with limit price above it),
  \<^verbatim>\<open>place_limit_order\<close> returns an order whose status is \<open>NEW\<close>, prints that status and
  leaves balance and positions as they were; a limit order is returned \<open>FILLED\<close> or
  \<open>REJECTED\<close> exactly when its price condition is met, and a market order always is.
\<close>

theorem limit_not_marketable_stays_new:
  "((upper sd = ''BUY'' \<and> lp < quote e symb) \<or> (upper sd = ''SELL'' \<and> quote e symb < lp) \<longrightarrow>
      status (returned (place_limit_order e s symb sd qty lp)) = NEW \<and>
      last (printed (place_limit_order e s symb sd qty lp)) = LIMIT_ORDER_PLACED NEW \<and>
      balance (after (place_limit_order e s symb sd qty lp)) = balance s \<and>
      positions (after (place_limit_order e s symb sd qty lp)) = positions s) \<and>
   (status (returned (place_limit_order e s symb sd qty lp)) \<in> {FILLED, REJECTED} \<longleftrightarrow>
      (upper sd = ''BUY'' \<and> quote e symb \<le> lp) \<or> (upper sd = ''SELL'' \<and> lp \<le> quote e symb)) \<and>
   status (returned (place_market_order e s symb sd qty)) \<in> {FILLED, REJECTED}"
proof -
  have gate: "\<not> eligible e symb sd lp"
    if "(upper sd = ''BUY'' \<and> lp < quote e symb) \<or> (upper sd = ''SELL'' \<and> quote e symb < lp)"
    using that by (auto simp: eligible_def)
  have "status (returned (place_limit_order e s symb sd qty lp)) \<in> {FILLED, REJECTED} \<longleftrightarrow>
          eligible e symb sd lp"
    by (simp add: limit_status)
  moreover have "status (returned (place_market_order e s symb sd qty)) \<in> {FILLED, REJECTED}"
    by (simp add: market_status)
  ultimately show ?thesis
    using gate
    by (auto simp: limit_status limit_balance limit_positions limit_printed eligible_def)
qed

theorem limit_not_marketable_stays_new_witness:
  "upper ''SELL'' = ''SELL'' \<and> quote live_100 ''ETHUSDT'' < 110 \<and>
   status (returned (place_limit_order live_100 init_bot ''ETHUSDT'' ''SELL'' 2 110)) = NEW \<and>
   balance (after (place_limit_order live_100 init_bot ''ETHUSDT'' ''SELL'' 2 110)) = 10000 \<and>
   positions (after (place_limit_order live_100 init_bot ''ETHUSDT'' ''SELL'' 2 110)) = Map.empty"
  using limit_not_marketable_stays_new [of "''SELL''" 110 live_100 "''ETHUSDT''" init_bot 2]
  by (simp add: upper_SELL quote_live_100 init_bot_def)

subsection \<open>The balance never goes below zero\<close>

text \<open>
  Claim C2, as the spec states it, fails: the quantity is not checked, and a SELL of
  \<open>-200\<close> at a price of 100 passes the position test (\<open>0 \<ge> -200\<close>) and adds
  \<open>-200 * 100\<close> to the starting balance of 10000.
\<close>

theorem balance_nonneg_counterexample:
  "balance (run init_bot [(live_100, Market ''BTCUSDT'' ''SELL'' (- 200))]) < 0"
  by (simp add: eval_defs)

lemma submit_balance_nonneg:
  assumes "0 \<le> balance s" and "0 \<le> req_quantity r" and "0 \<le> quote e (req_symbol r)"
  shows "0 \<le> balance (after (submit e s r))"
proof (cases r)
  case (Market symb sd qty)
  with assms show ?thesis
    by (simp add: market_balance)
next
  case (Limit symb sd qty lp)
  with assms show ?thesis
    by (simp add: limit_balance)
qed

lemma run_balance_nonneg:
  assumes "\<forall>(e, r) \<in> set steps. 0 \<le> req_quantity r \<and> 0 \<le> quote e (req_symbol r)"
    and "0 \<le> balance s"
  shows "0 \<le> balance (run s steps)"
  using assms
proof (induction steps arbitrary: s)
  case Nil
  then show ?case by simp
next
  case (Cons step steps)
  obtain e r where step: "step = (e, r)"
    by (cases step)
  from Cons.prems step have "0 \<le> balance (after (submit e s r))"
    by (intro submit_balance_nonneg) auto
  with Cons.IH [of "after (submit e s r)"] Cons.prems(1) step show ?case
    by simp
qed

text \<open>
  Claim C2, amended: for every sequence of orders submitted through
  \<^verbatim>\<open>place_market_order\<close> and \<^verbatim>\<open>place_limit_order\<close> whose quantities are \<open>\<ge> 0\<close> and whose
  market prices are \<open>\<ge> 0\<close> (any symbols, sides and limit prices), the balance is \<open>\<ge> 0\<close>
  after every processed order, starting from the initial balance of 10000.
\<close>

theorem balance_nonneg:
  assumes "\<forall>(e, r) \<in> set steps. 0 \<le> req_quantity r \<and> 0 \<le> quote e (req_symbol r)"
  shows "0 \<le> balance (run init_bot (take n steps))"
proof (rule run_balance_nonneg)
  show "\<forall>(e, r) \<in> set (take n steps). 0 \<le> req_quantity r \<and> 0 \<le> quote e (req_symbol r)"
    using assms by (auto dest: in_set_takeD)
  show "0 \<le> balance init_bot"
    by (simp add: init_bot_def)
qed

theorem balance_nonneg_witness:
  "0 \<le> req_quantity (Market ''BTCUSDT'' ''BUY'' 60) \<and>
   0 \<le> quote live_100 (req_symbol (Market ''BTCUSDT'' ''BUY'' 60)) \<and>
   0 \<le> req_quantity (Limit ''BTCUSDT'' ''SELL'' 60 40) \<and>
   0 \<le> quote live_50 (req_symbol (Limit ''BTCUSDT'' ''SELL'' 60 40)) \<and>
   0 \<le> balance (run init_bot (take 2
      [(live_100, Market ''BTCUSDT'' ''BUY'' 60), (live_50, Limit ''BTCUSDT'' ''SELL'' 60 40)])) \<and>
   balance (run init_bot
      [(live_100, Market ''BTCUSDT'' ''BUY'' 60), (live_50, Limit ''BTCUSDT'' ''SELL'' 60 40)]) = 7000"
proof -
  have steps: "\<forall>(e, r) \<in> set [(live_100, Market ''BTCUSDT'' ''BUY'' 60),
      (live_50, Limit ''BTCUSDT'' ''SELL'' 60 40)].
      0 \<le> req_quantity r \<and> 0 \<le> quote e (req_symbol r)"
    by (simp add: quote_live_100 quote_live_50)
  show ?thesis
    using balance_nonneg [OF steps, of 2]
    by (simp add: eval_defs)
qed

subsection \<open>Quantities that are not positive\<close>

text \<open>
  Claim C3, as the spec states it, fails: neither method checks the quantity. A market
  BUY of \<open>-1\<close> at a price of 100 is returned \<open>FILLED\<close> and changes the balance.
\<close>

theorem invalid_quantity_counterexample:
  "(- 1 :: rat) \<le> 0 \<and>
   status (returned (place_market_order live_100 init_bot ''BTCUSDT'' ''BUY'' (- 1))) = FILLED \<and>
   balance (after (place_market_order live_100 init_bot ''BTCUSDT'' ''BUY'' (- 1))) \<noteq>
     balance init_bot"
  by (simp add: eval_defs)

text \<open>
  Claim C3, amended: a request with quantity \<open>q \<le> 0\<close> is not failed for its quantity;
  it goes through the same balance and position checks as any other request. With
  \<open>q = 0\<close> neither the balance nor the quantity held of any symbol changes (market and
  limit orders). With \<open>q < 0\<close> a market order that passes its check is \<open>FILLED\<close> and the
  ledger changes: a BUY raises the balance by \<open>|q| * p\<close> and lowers the position by
  \<open>|q|\<close>, any other side lowers the balance by \<open>|q| * p\<close> and raises the position by
  \<open>|q|\<close>.
\<close>

theorem nonpositive_quantity_is_processed:
  "(qty = 0 \<longrightarrow>
      balance (after (place_market_order e s symb sd qty)) = balance s \<and>
      (\<forall>k. held (after (place_market_order e s symb sd qty)) k = held s k) \<and>
      balance (after (place_limit_order e s symb sd qty lp)) = balance s \<and>
      (\<forall>k. held (after (place_limit_order e s symb sd qty lp)) k = held s k)) \<and>
   (qty < 0 \<and> upper sd = ''BUY'' \<and> qty * quote e symb \<le> balance s \<longrightarrow>
      status (returned (place_market_order e s symb sd qty)) = FILLED \<and>
      balance (after (place_market_order e s symb sd qty)) = balance s + \<bar>qty\<bar> * quote e symb \<and>
      held (after (place_market_order e s symb sd qty)) symb = held s symb - \<bar>qty\<bar>) \<and>
   (qty < 0 \<and> upper sd \<noteq> ''BUY'' \<and> qty \<le> held s symb \<longrightarrow>
      status (returned (place_market_order e s symb sd qty)) = FILLED \<and>
      balance (after (place_market_order e s symb sd qty)) = balance s - \<bar>qty\<bar> * quote e symb \<and>
      held (after (place_market_order e s symb sd qty)) symb = held s symb + \<bar>qty\<bar>)"
proof (intro conjI impI)
  assume zero: "qty = 0"
  show "balance (after (place_market_order e s symb sd qty)) = balance s"
    using zero by (simp add: market_balance)
  show "\<forall>k. held (after (place_market_order e s symb sd qty)) k = held s k"
    using zero by (simp add: market_positions dict_get_def)
  show "balance (after (place_limit_order e s symb sd qty lp)) = balance s"
    using zero by (simp add: limit_balance)
  show "\<forall>k. held (after (place_limit_order e s symb sd qty lp)) k = held s k"
    using zero by (simp add: limit_positions dict_get_def)
next
  assume buy: "qty < 0 \<and> upper sd = ''BUY'' \<and> qty * quote e symb \<le> balance s"
  then show "status (returned (place_market_order e s symb sd qty)) = FILLED"
    by (simp add: market_status)
  from buy show "balance (after (place_market_order e s symb sd qty)) =
      balance s + \<bar>qty\<bar> * quote e symb"
    by (simp add: market_balance)
  from buy show "held (after (place_market_order e s symb sd qty)) symb = held s symb - \<bar>qty\<bar>"
    by (simp add: market_positions dict_get_def)
next
  assume sell: "qty < 0 \<and> upper sd \<noteq> ''BUY'' \<and> qty \<le> held s symb"
  then show "status (returned (place_market_order e s symb sd qty)) = FILLED"
    by (simp add: market_status)
  from sell show "balance (after (place_market_order e s symb sd qty)) =
      balance s - \<bar>qty\<bar> * quote e symb"
    by (simp add: market_balance)
  from sell show "held (after (place_market_order e s symb sd qty)) symb = held s symb + \<bar>qty\<bar>"
    by (simp add: market_positions dict_get_def)
qed

theorem nonpositive_quantity_is_processed_witness:
  "(balance (after (place_market_order live_100 init_bot ''BTCUSDT'' ''BUY'' 0)) = 10000 \<and>
    held (after (place_limit_order live_100 init_bot ''BTCUSDT'' ''BUY'' 0 100)) ''BTCUSDT'' = 0) \<and>
   ((- 2 :: rat) < 0 \<and> upper ''BUY'' = ''BUY'' \<and>
    - 2 * quote live_100 ''BTCUSDT'' \<le> balance init_bot \<and>
    balance (after (place_market_order live_100 init_bot ''BTCUSDT'' ''BUY'' (- 2))) = 10200 \<and>
    held (after (place_market_order live_100 init_bot ''BTCUSDT'' ''BUY'' (- 2))) ''BTCUSDT'' = - 2) \<and>
   ((- 2 :: rat) < 0 \<and> upper ''SELL'' \<noteq> ''BUY'' \<and> - 2 \<le> held init_bot ''BTCUSDT'' \<and>
    balance (after (place_market_order live_100 init_bot ''BTCUSDT'' ''SELL'' (- 2))) = 9800 \<and>
    held (after (place_market_order live_100 init_bot ''BTCUSDT'' ''SELL'' (- 2))) ''BTCUSDT'' = 2)"
  using nonpositive_quantity_is_processed [of 0 live_100 init_bot "''BTCUSDT''" "''BUY''" 100]
    nonpositive_quantity_is_processed [of "- 2" live_100 init_bot "''BTCUSDT''" "''BUY''" 100]
    nonpositive_quantity_is_processed [of "- 2" live_100 init_bot "''BTCUSDT''" "''SELL''" 100]
  by (simp add: upper_BUY upper_SELL quote_live_100 init_bot_def dict_get_def)

subsection \<open>The price gate of limit orders\<close>

text \<open>
  Claim C4: with limit price \<open>lp\<close> and market price \<open>p\<close>, a BUY limit whose cost the
  balance covers is filled iff \<open>lp \<ge> p\<close>, a SELL limit whose quantity the position covers
  is filled iff \<open>lp \<le> p\<close>; and a filled limit order records \<open>p\<close> as its filled price and
  moves \<open>quantity * p\<close> (not \<open>quantity * lp\<close>) between balance and position.
\<close>

theorem limit_fills_at_market_price:
  "(upper sd = ''BUY'' \<and> qty * quote e symb \<le> balance s \<longrightarrow>
      (status (returned (place_limit_order e s symb sd qty lp)) = FILLED \<longleftrightarrow> quote e symb \<le> lp)) \<and>
   (upper sd = ''SELL'' \<and> qty \<le> held s symb \<longrightarrow>
      (status (returned (place_limit_order e s symb sd qty lp)) = FILLED \<longleftrightarrow> lp \<le> quote e symb)) \<and>
   (status (returned (place_limit_order e s symb sd qty lp)) = FILLED \<longrightarrow>
      filled_price (returned (place_limit_order e s symb sd qty lp)) = Some (quote e symb) \<and>
      (upper sd = ''BUY'' \<longrightarrow>
         balance (after (place_limit_order e s symb sd qty lp)) = balance s - qty * quote e symb \<and>
         positions (after (place_limit_order e s symb sd qty lp)) =
           (positions s)(symb \<mapsto> held s symb + qty)) \<and>
      (upper sd = ''SELL'' \<longrightarrow>
         balance (after (place_limit_order e s symb sd qty lp)) = balance s + qty * quote e symb \<and>
         positions (after (place_limit_order e s symb sd qty lp)) =
           (positions s)(symb \<mapsto> held s symb - qty)))"
proof (intro conjI impI)
  assume "upper sd = ''BUY'' \<and> qty * quote e symb \<le> balance s"
  then show "status (returned (place_limit_order e s symb sd qty lp)) = FILLED \<longleftrightarrow> quote e symb \<le> lp"
    by (simp add: limit_status eligible_def)
next
  assume "upper sd = ''SELL'' \<and> qty \<le> held s symb"
  then show "status (returned (place_limit_order e s symb sd qty lp)) = FILLED \<longleftrightarrow> lp \<le> quote e symb"
    by (simp add: limit_status eligible_def)
next
  assume filled: "status (returned (place_limit_order e s symb sd qty lp)) = FILLED"
  then have gate: "eligible e symb sd lp"
    by (simp add: limit_status split: if_splits)
  then show "filled_price (returned (place_limit_order e s symb sd qty lp)) = Some (quote e symb)"
    by (simp add: limit_filled_price)
  {
    assume buy: "upper sd = ''BUY''"
    with filled gate have "qty * quote e symb \<le> balance s"
      by (simp add: limit_status split: if_splits)
    with buy gate
    show "balance (after (place_limit_order e s symb sd qty lp)) = balance s - qty * quote e symb"
      and "positions (after (place_limit_order e s symb sd qty lp)) =
           (positions s)(symb \<mapsto> held s symb + qty)"
      by (simp_all add: limit_balance limit_positions)
  }
  {
    assume sell: "upper sd = ''SELL''"
    with filled gate have "qty \<le> held s symb"
      by (simp add: limit_status split: if_splits)
    with sell gate
    show "balance (after (place_limit_order e s symb sd qty lp)) = balance s + qty * quote e symb"
      and "positions (after (place_limit_order e s symb sd qty lp)) =
           (positions s)(symb \<mapsto> held s symb - qty)"
      by (simp_all add: limit_balance limit_positions)
  }
qed

theorem limit_fills_at_market_price_witness:
  "(upper ''BUY'' = ''BUY'' \<and> 2 * quote live_100 ''BTCUSDT'' \<le> balance init_bot \<and>
    quote live_100 ''BTCUSDT'' \<le> 110 \<and>
    status (returned (place_limit_order live_100 init_bot ''BTCUSDT'' ''BUY'' 2 110)) = FILLED \<and>
    filled_price (returned (place_limit_order live_100 init_bot ''BTCUSDT'' ''BUY'' 2 110)) = Some 100 \<and>
    balance (after (place_limit_order live_100 init_bot ''BTCUSDT'' ''BUY'' 2 110)) = 9800) \<and>
   (upper ''SELL'' = ''SELL'' \<and> 2 \<le> held bot_holding ''BTCUSDT'' \<and>
    90 \<le> quote live_100 ''BTCUSDT'' \<and>
    status (returned (place_limit_order live_100 bot_holding ''BTCUSDT'' ''SELL'' 2 90)) = FILLED \<and>
    filled_price (returned (place_limit_order live_100 bot_holding ''BTCUSDT'' ''SELL'' 2 90)) = Some 100 \<and>
    balance (after (place_limit_order live_100 bot_holding ''BTCUSDT'' ''SELL'' 2 90)) = 10200 \<and>
    held (after (place_limit_order live_100 bot_holding ''BTCUSDT'' ''SELL'' 2 90)) ''BTCUSDT'' = 3)"
  using limit_fills_at_market_price [of "''BUY''" 2 live_100 "''BTCUSDT''" init_bot 110]
    limit_fills_at_market_price [of "''SELL''" 2 live_100 "''BTCUSDT''" bot_holding 90]
  by (simp add: upper_BUY upper_SELL quote_live_100 init_bot_def bot_holding_def dict_get_def)

subsection \<open>Positions never go below zero\<close>

text \<open>
  Claim C5, as the spec states it, fails: a market BUY of \<open>-1\<close> passes the balance test
  (its cost is negative) and stores \<open>-1\<close> as the position.
\<close>

theorem positions_nonneg_counterexample:
  "positions (run init_bot [(live_100, Market ''BTCUSDT'' ''BUY'' (- 1))]) ''BTCUSDT'' = Some (- 1) \<and>
   (- 1 :: rat) < 0"
  by (simp add: eval_defs)

lemma stored_nonneg_iff:
  "(\<forall>v \<in> ran m. (0::rat) \<le> v) \<longleftrightarrow> (\<forall>k. 0 \<le> dict_get m k 0)"
proof
  assume stored: "\<forall>v \<in> ran m. 0 \<le> v"
  show "\<forall>k. 0 \<le> dict_get m k 0"
  proof
    fix k
    show "0 \<le> dict_get m k 0"
      using stored by (cases "m k") (auto simp: dict_get_def ran_def)
  qed
next
  assume got: "\<forall>k. 0 \<le> dict_get m k 0"
  show "\<forall>v \<in> ran m. 0 \<le> v"
  proof
    fix v
    assume "v \<in> ran m"
    then obtain k where "m k = Some v"
      by (auto simp: ran_def)
    with got [rule_format, of k] show "0 \<le> v"
      by (simp add: dict_get_def)
  qed
qed

lemma submit_held_nonneg:
  assumes "\<forall>k. 0 \<le> held s k" and "0 \<le> req_quantity r"
  shows "0 \<le> held (after (submit e s r)) k"
proof (cases r)
  case (Market symb sd qty)
  with assms(2) assms(1) [rule_format, of symb] assms(1) [rule_format, of k] show ?thesis
    by (simp add: market_positions dict_get_def)
next
  case (Limit symb sd qty lp)
  with assms(2) assms(1) [rule_format, of symb] assms(1) [rule_format, of k] show ?thesis
    by (simp add: limit_positions dict_get_def)
qed

lemma submit_positions_nonneg:
  assumes "\<forall>v \<in> ran (positions s). 0 \<le> v" and "0 \<le> req_quantity r"
  shows "\<forall>v \<in> ran (positions (after (submit e s r))). 0 \<le> v"
  using assms submit_held_nonneg [of s r e]
  by (simp add: stored_nonneg_iff)

lemma run_positions_nonneg:
  assumes "\<forall>(e, r) \<in> set steps. 0 \<le> req_quantity r"
    and "\<forall>v \<in> ran (positions s). 0 \<le> v"
  shows "\<forall>v \<in> ran (positions (run s steps)). 0 \<le> v"
  using assms
proof (induction steps arbitrary: s)
  case Nil
  then show ?case by simp
next
  case (Cons step steps)
  obtain e r where step: "step = (e, r)"
    by (cases step)
  from Cons.prems step have "\<forall>v \<in> ran (positions (after (submit e s r))). 0 \<le> v"
    by (intro submit_positions_nonneg) auto
  with Cons.IH [of "after (submit e s r)"] Cons.prems(1) step show ?case
    by simp
qed

text \<open>
  Claim C5, amended: for every sequence of orders submitted through
  \<^verbatim>\<open>place_market_order\<close> and \<^verbatim>\<open>place_limit_order\<close> whose quantities are \<open>\<ge> 0\<close>, every
  quantity stored in the positions is \<open>\<ge> 0\<close> after every processed order, starting from
  the initial bot.
\<close>

theorem positions_nonneg:
  assumes "\<forall>(e, r) \<in> set steps. 0 \<le> req_quantity r"
  shows "\<forall>v \<in> ran (positions (run init_bot (take n steps))). 0 \<le> v"
proof (rule run_positions_nonneg)
  show "\<forall>(e, r) \<in> set (take n steps). 0 \<le> req_quantity r"
    using assms by (auto dest: in_set_takeD)
  show "\<forall>v \<in> ran (positions init_bot). 0 \<le> v"
    by (simp add: init_bot_def)
qed

theorem positions_nonneg_witness:
  "0 \<le> req_quantity (Market ''BTCUSDT'' ''BUY'' 3) \<and>
   0 \<le> req_quantity (Market ''BTCUSDT'' ''SELL'' 2) \<and>
   positions (run init_bot (take 2
      [(live_100, Market ''BTCUSDT'' ''BUY'' 3), (live_50, Market ''BTCUSDT'' ''SELL'' 2)])) ''BTCUSDT'' =
     Some 1 \<and>
   0 \<le> held (run init_bot (take 2
      [(live_100, Market ''BTCUSDT'' ''BUY'' 3), (live_50, Market ''BTCUSDT'' ''SELL'' 2)])) ''BTCUSDT''"
proof -
  let ?steps = "[(live_100, Market ''BTCUSDT'' ''BUY'' 3), (live_50, Market ''BTCUSDT'' ''SELL'' 2)]"
  have steps: "\<forall>(e, r) \<in> set ?steps. 0 \<le> req_quantity r"
    by simp
  have stored: "positions (run init_bot (take 2 ?steps)) ''BTCUSDT'' = Some 1"
    by (simp add: eval_defs)
  then have "1 \<in> ran (positions (run init_bot (take 2 ?steps)))"
    by (rule ranI)
  with positions_nonneg [OF steps, of 2] have "(0::rat) \<le> 1"
    by blast
  with stored show ?thesis
    by (simp add: dict_get_def)
qed

subsection \<open>Order identifiers and the order log\<close>

lemma submit_log:
  "orders (after (submit e s r)) = orders s @ [returned (submit e s r)]"
  "order_id_counter (after (submit e s r)) = order_id_counter s + 1"
  "orderId (returned (submit e s r)) = order_id_counter s"
  by (cases r; simp add: market_log limit_log)+

lemma results_length: "length (results s steps) = length steps"
proof (induction steps arbitrary: s)
  case Nil
  show ?case by simp
next
  case (Cons step steps)
  then show ?case
    by (cases step) simp
qed

lemma run_counter: "order_id_counter (run s steps) = order_id_counter s + int (length steps)"
proof (induction steps arbitrary: s)
  case Nil
  show ?case by simp
next
  case (Cons step steps)
  then show ?case
    by (cases step) (simp add: submit_log)
qed

lemma run_orders: "orders (run s steps) = orders s @ results s steps"
proof (induction steps arbitrary: s)
  case Nil
  show ?case by simp
next
  case (Cons step steps)
  then show ?case
    by (cases step) (simp add: submit_log)
qed

lemma results_ids:
  "map orderId (results s steps) = map (\<lambda>i. order_id_counter s + int i) [0..<length steps]"
proof (induction steps arbitrary: s)
  case Nil
  show ?case by simp
next
  case (Cons step steps)
  obtain e r where step: "step = (e, r)"
    by (cases step)
  have "map (\<lambda>i. order_id_counter s + int i) [0..<Suc (length steps)] =
      order_id_counter s # map (\<lambda>i. order_id_counter s + 1 + int i) [0..<length steps]"
    by (simp add: upt_conv_Cons map_Suc_upt [symmetric] del: upt_Suc)
  with Cons.IH [of "after (submit e s r)"] step show ?case
    by (simp add: submit_log)
qed

text \<open>
  Claim C6: in every session (market or limit orders, whatever their outcome) the
  \<open>i\<close>-th submission gets the identifier \<open>counter + i\<close>, where \<open>counter\<close> is the value of
  the counter before the session: identifiers go up by exactly 1 per submission. Every
  returned order is appended to the order log in submission order, nothing else in the
  log changes, and the counter ends one above the last identifier it gave out.
\<close>

theorem identifiers_increase_by_one:
  "length (results s steps) = length steps \<and>
   map orderId (results s steps) = map (\<lambda>i. order_id_counter s + int i) [0..<length steps] \<and>
   orders (run s steps) = orders s @ results s steps \<and>
   order_id_counter (run s steps) = order_id_counter s + int (length steps)"
  by (simp add: results_length results_ids run_orders run_counter)

subsection \<open>Market BUY orders the balance does not cover\<close>



subsection \<open>Buying and selling back\<close>


text \<open>
  The claim has a second obstacle, which exact rationals cannot show: the source subtracts
  and adds the cost in float arithmetic, and \<open>(b - c) + c\<close> need not be \<open>b\<close> there. With
  balance 7928.2864, no position, quantity 2.93 and price 1190.64, both orders fill and
  the balance ends at 7928.286400000001. The amended claim therefore says what the two
  calls do, step by step, and does not identify the final balance with the first one:
  each conjunct is one comparison or one arithmetic operation of the source, and the two
  comparisons hold under rounding as well, since rounding is monotone (\<open>q * p \<le> b\<close> gives
  a rounded cost \<open>\<le> b\<close>, and \<open>h \<ge> 0\<close> gives a rounded \<open>h + q \<ge> q\<close>).
\<close>



subsection \<open>The key of a position\<close>

text \<open>
  Claim C9 says that positions are kept under the upper-cased symbol, the one the order
  records. The source upper-cases the symbol for the price lookup and for the order, but
  reads and writes the positions under the symbol as submitted. After a market BUY of 1
  \<open>btcusdt\<close> and a market BUY of 1 \<open>BTCUSDT\<close> both orders record \<open>BTCUSDT\<close>, and the
  positions hold two entries of 1 each; a market SELL of 2 \<open>BTCUSDT\<close> is then rejected.
\<close>

theorem position_key_not_normalized:
  "map symbol (results init_bot
      [(live_100, Market ''btcusdt'' ''BUY'' 1), (live_100, Market ''BTCUSDT'' ''BUY'' 1)]) =
     [''BTCUSDT'', ''BTCUSDT''] \<and>
   map status (results init_bot
      [(live_100, Market ''btcusdt'' ''BUY'' 1), (live_100, Market ''BTCUSDT'' ''BUY'' 1)]) =
     [FILLED, FILLED] \<and>
   positions (after (place_market_order live_100 init_bot ''btcusdt'' ''BUY'' 1)) ''BTCUSDT'' = None \<and>
   positions (run init_bot
      [(live_100, Market ''btcusdt'' ''BUY'' 1), (live_100, Market ''BTCUSDT'' ''BUY'' 1)]) ''btcusdt'' =
     Some 1 \<and>
   positions (run init_bot
      [(live_100, Market ''btcusdt'' ''BUY'' 1), (live_100, Market ''BTCUSDT'' ''BUY'' 1)]) ''BTCUSDT'' =
     Some 1 \<and>
   status (returned (place_market_order live_100 (run init_bot
      [(live_100, Market ''btcusdt'' ''BUY'' 1), (live_100, Market ''BTCUSDT'' ''BUY'' 1)])
      ''BTCUSDT'' ''SELL'' 2)) = REJECTED"
  by (simp add: eval_defs)

subsection \<open>Sides other than BUY and SELL\<close>

text \<open>
  Claim C10: a market order whose upper-cased side is neither \<open>BUY\<close> nor \<open>SELL\<close> is not
  refused for its side. It takes the branch of a SELL: if the position covers the
  quantity the order is \<open>FILLED\<close>, the proceeds are added to the balance and the position
  goes down by the quantity; otherwise it is \<open>REJECTED\<close> for insufficient position. Balance,
  positions, status and printed text are those of the same order with side \<open>SELL\<close>.
\<close>

theorem market_other_side_sells:
  assumes "upper sd \<noteq> ''BUY''" and "upper sd \<noteq> ''SELL''"
  shows "(qty \<le> held s symb \<longrightarrow>
            status (returned (place_market_order e s symb sd qty)) = FILLED \<and>
            last (printed (place_market_order e s symb sd qty)) = SELL_ORDER_EXECUTED \<and>
            balance (after (place_market_order e s symb sd qty)) = balance s + qty * quote e symb \<and>
            positions (after (place_market_order e s symb sd qty)) =
              (positions s)(symb \<mapsto> held s symb - qty)) \<and>
         (\<not> qty \<le> held s symb \<longrightarrow>
            status (returned (place_market_order e s symb sd qty)) = REJECTED \<and>
            last (printed (place_market_order e s symb sd qty)) = INSUFFICIENT_POSITION \<and>
            balance (after (place_market_order e s symb sd qty)) = balance s \<and>
            positions (after (place_market_order e s symb sd qty)) = positions s) \<and>
         side (returned (place_market_order e s symb sd qty)) = upper sd \<and>
         status (returned (place_market_order e s symb sd qty)) =
           status (returned (place_market_order e s symb ''SELL'' qty)) \<and>
         printed (place_market_order e s symb sd qty) =
           printed (place_market_order e s symb ''SELL'' qty) \<and>
         balance (after (place_market_order e s symb sd qty)) =
           balance (after (place_market_order e s symb ''SELL'' qty)) \<and>
         positions (after (place_market_order e s symb sd qty)) =
           positions (after (place_market_order e s symb ''SELL'' qty))"
proof -
  have sell: "upper ''SELL'' \<noteq> ''BUY''"
    by (simp add: upper_SELL)
  have "side (returned (place_market_order e s symb sd qty)) = upper sd"
    by (simp add: place_market_order_def Let_def split: prod.splits)
  moreover have "printed (place_market_order e s symb sd qty) =
      printed (place_market_order e s symb ''SELL'' qty)"
    using assms(1) sell by (simp add: place_market_order_def Let_def split: prod.splits)
  ultimately show ?thesis
    using assms(1) sell
    by (simp add: market_status market_printed market_balance market_positions)
qed

theorem market_other_side_sells_witness:
  "upper ''hold'' \<noteq> ''BUY'' \<and> upper ''hold'' \<noteq> ''SELL'' \<and> 2 \<le> held bot_holding ''BTCUSDT'' \<and>
   status (returned (place_market_order live_100 bot_holding ''BTCUSDT'' ''hold'' 2)) = FILLED \<and>
   side (returned (place_market_order live_100 bot_holding ''BTCUSDT'' ''hold'' 2)) = ''HOLD'' \<and>
   balance (after (place_market_order live_100 bot_holding ''BTCUSDT'' ''hold'' 2)) = 10200 \<and>
   positions (after (place_market_order live_100 bot_holding ''BTCUSDT'' ''hold'' 2)) =
     [''BTCUSDT'' \<mapsto> 3] \<and>
   \<not> 2 \<le> held init_bot ''BTCUSDT'' \<and>
   status (returned (place_market_order live_100 init_bot ''BTCUSDT'' ''hold'' 2)) = REJECTED"
proof -
  have hold: "upper ''hold'' = ''HOLD''"
    by (simp add: upper_def upper_char_def ascii_lowercase_def ascii_uppercase_def)
  have not_buy: "upper ''hold'' \<noteq> ''BUY''" and not_sell: "upper ''hold'' \<noteq> ''SELL''"
    by (simp_all add: hold)
  show ?thesis
    using not_buy not_sell hold
      market_other_side_sells [OF not_buy not_sell, of 2 bot_holding "''BTCUSDT''" live_100]
      market_other_side_sells [OF not_buy not_sell, of 2 init_bot "''BTCUSDT''" live_100]
    by (simp add: quote_live_100 bot_holding_def init_bot_def dict_get_def)
qed

end
